theory Spec2Isabelle
  imports Main
begin

section \<open>Pod utilities of pkg/util/pod.go\<close>

text \<open>
  The file pkg/util/pod.go holds ten helpers over the Kubernetes pod schema. The schema
  itself (k8s.io/api/core/v1 and k8s.io/apimachinery/pkg/apis/meta/v1) is a library the
  helpers import; the parts of it they touch are modelled in the next subsection, the
  helpers themselves after that, one definition per Go function and in the order of the
  source file.

  Conventions of the embedding:
  \<^item> a Go pointer that may be nil is an \<open>option\<close>; reading or writing through a nil
    pointer panics, which is the value \<open>Inl NilPointerDereference\<close> of a sum type;
  \<^item> a Go slice is an \<open>option\<close> of a list, \<open>None\<close> being the nil slice, because
    \<open>GetPodConditionFromList\<close> compares its slice against nil;
  \<^item> the Go named string types (\<open>PodPhase\<close>, \<open>PodConditionType\<close>,
    \<open>ConditionStatus\<close>) are strings, their constants the strings the library declares;
  \<^item> a function that writes through a pointer returns the record it wrote to: the
    status (or spec) and the condition record of the caller are both part of the result;
  \<^item> the clock read by \<open>metav1.Now()\<close> is an argument \<open>now\<close>;
  \<^item> the \<open>condition\<close> pointer of \<open>UpdatePodCondition\<close> is either a pointer to a record of
    its own or a pointer into the condition slice of the status of the same call, so
    that a write through it may be a write to the status.
\<close>

subsection \<open>The library types the helpers use\<close>

text \<open>
  \<open>metav1.Time\<close> wraps \<open>time.Time\<close>. The helpers observe it only through \<open>IsZero\<close> and
  \<open>Equal\<close>, both of which look at the instant it denotes, so a time is modelled by that
  instant, counted from the zero time.
\<close>

datatype Time = Time (instant: int)

datatype fault = NilPointerDereference | IndexOutOfRange

type_synonym 'a slice = "'a list option"

type_synonym PodPhase = string
type_synonym PodConditionType = string
type_synonym ConditionStatus = string

record PodCondition =
  Type :: PodConditionType
  Status :: ConditionStatus
  LastProbeTime :: Time
  LastTransitionTime :: Time
  Reason :: string
  Message :: string

record PodStatus =
  Phase :: PodPhase
  Conditions :: "PodCondition slice"

record PodReadinessGate =
  ConditionType :: PodConditionType

record PodSpec =
  ReadinessGates :: "PodReadinessGate slice"

record Pod =
  Name :: string
  DeletionTimestamp :: "Time option"
  Spec :: PodSpec
  Status_Pod :: PodStatus

definition PodRunning :: PodPhase where
  "PodRunning = ''Running''"

definition PodSucceeded :: PodPhase where
  "PodSucceeded = ''Succeeded''"

definition PodFailed :: PodPhase where
  "PodFailed = ''Failed''"

definition PodReady :: PodConditionType where
  "PodReady = ''Ready''"

definition ConditionTrue :: ConditionStatus where
  "ConditionTrue = ''True''"

text \<open>The elements of a slice; ranging over the nil slice visits nothing.\<close>

definition elems :: "'a slice \<Rightarrow> 'a list" where
  "elems s = (case s of None \<Rightarrow> [] | Some xs \<Rightarrow> xs)"

text \<open>Go's \<open>append(s, x)\<close>: never nil, also when \<open>s\<close> is.\<close>

definition append_slice :: "'a slice \<Rightarrow> 'a \<Rightarrow> 'a slice" where
  "append_slice s x = Some (elems s @ [x])"

text \<open>\<open>(*metav1.Time).IsZero\<close>: a nil time is zero.\<close>

definition IsZero :: "Time option \<Rightarrow> bool" where
  "IsZero t = (case t of None \<Rightarrow> True | Some u \<Rightarrow> instant u = 0)"

text \<open>\<open>(*metav1.Time).Equal\<close>: two nil times are equal, a nil and a non-nil one are not.\<close>

definition Equal :: "Time option \<Rightarrow> Time option \<Rightarrow> bool" where
  "Equal t u =
     (case (t, u) of
        (None, None) \<Rightarrow> True
      | (Some a, Some b) \<Rightarrow> instant a = instant b
      | _ \<Rightarrow> False)"

subsection \<open>The helpers\<close>

text \<open>
  \<open>GetPodNames\<close>: the loop appends \<open>pod.Name\<close> for each pointer of the slice, and
  panics at the first nil one. The result of \<open>make([]string, 0, n)\<close> is not nil.
\<close>

fun GetPodNames_loop :: "Pod option list \<Rightarrow> string list \<Rightarrow> fault + string list" where
  "GetPodNames_loop [] result = Inr result"
| "GetPodNames_loop (pod # pods) result =
     (case pod of
        None \<Rightarrow> Inl NilPointerDereference
      | Some p \<Rightarrow> GetPodNames_loop pods (result @ [Name p]))"

definition GetPodNames :: "Pod option slice \<Rightarrow> fault + string slice" where
  "GetPodNames pods =
     (case GetPodNames_loop (elems pods) [] of
        Inl e \<Rightarrow> Inl e
      | Inr result \<Rightarrow> Inr (Some result))"

definition IsPodRunning :: "Pod option \<Rightarrow> fault + bool" where
  "IsPodRunning pod =
     (case pod of
        None \<Rightarrow> Inl NilPointerDereference
      | Some p \<Rightarrow> Inr (IsZero (DeletionTimestamp p) \<and> Phase (Status_Pod p) = PodRunning))"

definition IsPodActive :: "Pod option \<Rightarrow> fault + bool" where
  "IsPodActive pod =
     (case pod of
        None \<Rightarrow> Inl NilPointerDereference
      | Some p \<Rightarrow>
          Inr (Phase (Status_Pod p) \<noteq> PodSucceeded \<and>
               Phase (Status_Pod p) \<noteq> PodFailed \<and>
               IsZero (DeletionTimestamp p)))"

text \<open>
  \<open>GetPodConditionFromList\<close>: the loop \<open>for i := range conditions\<close>, at position \<open>i\<close>
  of the slice; the pointer \<open>&conditions[i]\<close> it returns is modelled by the entry it
  points to.
\<close>

fun GetPodConditionFromList_loop ::
  "PodCondition list \<Rightarrow> PodConditionType \<Rightarrow> nat \<Rightarrow> int \<times> PodCondition option" where
  "GetPodConditionFromList_loop [] conditionType i = (- 1, None)"
| "GetPodConditionFromList_loop (c # cs) conditionType i =
     (if Type c = conditionType then (int i, Some c)
      else GetPodConditionFromList_loop cs conditionType (Suc i))"

definition GetPodConditionFromList ::
  "PodCondition slice \<Rightarrow> PodConditionType \<Rightarrow> int \<times> PodCondition option" where
  "GetPodConditionFromList conditions conditionType =
     (case conditions of
        None \<Rightarrow> (- 1, None)
      | Some cs \<Rightarrow> GetPodConditionFromList_loop cs conditionType 0)"

definition GetPodCondition ::
  "PodStatus option \<Rightarrow> PodConditionType \<Rightarrow> int \<times> PodCondition option" where
  "GetPodCondition status conditionType =
     (case status of
        None \<Rightarrow> (- 1, None)
      | Some st \<Rightarrow> GetPodConditionFromList (Conditions st) conditionType)"

text \<open>\<open>GetPodReadyCondition\<close> takes the status by value, so \<open>&status\<close> is never nil.\<close>

definition GetPodReadyCondition :: "PodStatus \<Rightarrow> PodCondition option" where
  "GetPodReadyCondition status = snd (GetPodCondition (Some status) PodReady)"

definition IsPodReadyConditionTrue :: "PodStatus \<Rightarrow> bool" where
  "IsPodReadyConditionTrue status =
     (case GetPodReadyCondition status of
        None \<Rightarrow> False
      | Some condition \<Rightarrow> Status condition = ConditionTrue)"

definition IsPodReady :: "Pod option \<Rightarrow> fault + bool" where
  "IsPodReady pod =
     (case pod of
        None \<Rightarrow> Inl NilPointerDereference
      | Some p \<Rightarrow> Inr (IsPodReadyConditionTrue (Status_Pod p)))"

text \<open>
  A non-nil \<open>condition\<close> argument of \<open>UpdatePodCondition\<close> points either to a record of
  its own, \<open>Own c\<close> with \<open>c\<close> the content of the record at the call, or into the slice
  of the status of the same call: \<open>Elem i\<close> is the pointer \<open>&status.Conditions[i]\<close>,
  which is what \<open>GetPodCondition\<close> returns. Evaluating \<open>&status.Conditions[i]\<close> panics
  on a nil status and on an index beyond the slice; \<open>deref\<close> is that evaluation followed
  by the read of the record.
\<close>

datatype cond_ref = Own PodCondition | Elem nat

definition deref :: "PodStatus option \<Rightarrow> cond_ref \<Rightarrow> fault + PodCondition" where
  "deref status ref =
     (case ref of
        Own c \<Rightarrow> Inr c
      | Elem i \<Rightarrow>
          (case status of
             None \<Rightarrow> Inl NilPointerDereference
           | Some st \<Rightarrow>
               if i < length (elems (Conditions st)) then Inr (elems (Conditions st) ! i)
               else Inl IndexOutOfRange))"

text \<open>
  The assignment \<open>condition.LastTransitionTime = t\<close>: it changes the record of the
  caller when the pointer is \<open>Own\<close>, and the entry of the status when it is \<open>Elem\<close>.
\<close>

definition assign_LastTransitionTime ::
  "Time \<Rightarrow> PodStatus option \<Rightarrow> cond_ref \<Rightarrow> PodStatus option \<times> cond_ref" where
  "assign_LastTransitionTime t status ref =
     (case ref of
        Own c \<Rightarrow> (status, Own (c\<lparr>LastTransitionTime := t\<rparr>))
      | Elem i \<Rightarrow>
          (map_option
             (\<lambda>st. st\<lparr>Conditions :=
                        map_option (\<lambda>xs. xs[i := (xs ! i)\<lparr>LastTransitionTime := t\<rparr>])
                          (Conditions st)\<rparr>)
             status,
           Elem i))"

text \<open>
  \<open>UpdatePodCondition\<close>, statement by statement. Line 91 writes \<open>now\<close> through
  \<open>condition\<close>; \<open>c1\<close> is the record read through the pointer after that write. Line 93
  looks up the type in the status as the write left it. When nothing is found, line 97
  appends \<open>*condition\<close>. Otherwise \<open>oldCondition\<close> is the pointer
  \<open>&status.Conditions[conditionIndex]\<close>: \<open>old1\<close> is the entry it points to when line
  101 and 102 read it, \<open>old2\<close> the entry it points to when lines 105 to 109 read it,
  after the write of line 102; \<open>c2\<close> is the record read through \<open>condition\<close> after
  that write. Line 111 stores \<open>c2\<close> at \<open>conditionIndex\<close>. The result is the returned
  flag, the status as the call leaves it, and the record \<open>condition\<close> points to as the
  call leaves it.
\<close>

definition UpdatePodCondition ::
  "Time \<Rightarrow> PodStatus option \<Rightarrow> cond_ref option \<Rightarrow>
     fault + (bool \<times> PodStatus \<times> PodCondition)" where
  "UpdatePodCondition now status condition =
     (case condition of
        None \<Rightarrow> Inl NilPointerDereference
      | Some ref \<Rightarrow>
          (case deref status ref of
             Inl e \<Rightarrow> Inl e
           | Inr c0 \<Rightarrow>
               let (status1, ref1) = assign_LastTransitionTime now status ref
               in (case deref status1 ref1 of
                     Inl e \<Rightarrow> Inl e
                   | Inr c1 \<Rightarrow>
                       let (conditionIndex, oldCondition) = GetPodCondition status1 (Type c1)
                       in (case oldCondition of
                             None \<Rightarrow>
                               (case status1 of
                                  None \<Rightarrow> Inl NilPointerDereference
                                | Some st1 \<Rightarrow>
                                    let st2 = st1\<lparr>Conditions := append_slice (Conditions st1) c1\<rparr>
                                    in (case deref (Some st2) ref1 of
                                          Inl e \<Rightarrow> Inl e
                                        | Inr c2 \<Rightarrow> Inr (True, st2, c2)))
                           | Some old1 \<Rightarrow>
                               let (status2, ref2) =
                                     (if Status c1 = Status old1
                                      then assign_LastTransitionTime (LastTransitionTime old1)
                                             status1 ref1
                                      else (status1, ref1))
                               in (case (status2, deref status2 ref2) of
                                     (None, _) \<Rightarrow> Inl NilPointerDereference
                                   | (Some st2, Inl e) \<Rightarrow> Inl e
                                   | (Some st2, Inr c2) \<Rightarrow>
                                       if 0 \<le> conditionIndex \<and>
                                          nat conditionIndex < length (elems (Conditions st2))
                                       then
                                         let old2 = elems (Conditions st2) ! nat conditionIndex;
                                             isEqual =
                                               (Status c2 = Status old2 \<and>
                                                Reason c2 = Reason old2 \<and>
                                                Message c2 = Message old2 \<and>
                                                Equal (Some (LastProbeTime c2))
                                                      (Some (LastProbeTime old2)) \<and>
                                                Equal (Some (LastTransitionTime c2))
                                                      (Some (LastTransitionTime old2)));
                                             st3 = st2\<lparr>Conditions :=
                                                     Some ((elems (Conditions st2))
                                                             [nat conditionIndex := c2])\<rparr>
                                         in (case deref (Some st3) ref2 of
                                               Inl e \<Rightarrow> Inl e
                                             | Inr c3 \<Rightarrow> Inr (\<not> isEqual, st3, c3))
                                       else Inl IndexOutOfRange)))))"

text \<open>
  \<open>AddPodCondition\<close> reads \<open>condition.Type\<close> and writes through \<open>condition\<close> only after
  the lookup has found no entry of that type. A pointer into the slice of the same
  status always finds an entry, so that call returns false before any write, as the
  call on a record with the content of the entry does. The condition is therefore given
  by its content.
\<close>

definition AddPodCondition ::
  "Time \<Rightarrow> PodStatus option \<Rightarrow> PodCondition option \<Rightarrow>
     fault + (bool \<times> PodStatus option \<times> PodCondition)" where
  "AddPodCondition now status condition =
     (case condition of
        None \<Rightarrow> Inl NilPointerDereference
      | Some c0 \<Rightarrow>
          (case snd (GetPodCondition status (Type c0)) of
             Some oldCondition \<Rightarrow> Inr (False, status, c0)
           | None \<Rightarrow>
               let c1 = c0\<lparr>LastTransitionTime := now\<rparr>
               in (case status of
                     None \<Rightarrow> Inl NilPointerDereference
                   | Some st \<Rightarrow>
                       Inr (True,
                            Some (st\<lparr>Conditions := append_slice (Conditions st) c1\<rparr>),
                            c1))))"

text \<open>
  \<open>AddPodReadinessGate\<close>: the loop leaves the function, with the result false, at the
  first gate of the type, and the append is reached only when the loop ran to its end.
  \<open>AddPodReadinessGate_loop\<close> tells whether the loop leaves the function.
\<close>

fun AddPodReadinessGate_loop :: "PodReadinessGate list \<Rightarrow> PodConditionType \<Rightarrow> bool" where
  "AddPodReadinessGate_loop [] conditionType = False"
| "AddPodReadinessGate_loop (rg # rgs) conditionType =
     (if ConditionType rg = conditionType then True
      else AddPodReadinessGate_loop rgs conditionType)"

definition AddPodReadinessGate ::
  "PodSpec option \<Rightarrow> PodConditionType \<Rightarrow> fault + (bool \<times> PodSpec)" where
  "AddPodReadinessGate spec conditionType =
     (case spec of
        None \<Rightarrow> Inl NilPointerDereference
      | Some sp \<Rightarrow>
          if AddPodReadinessGate_loop (elems (ReadinessGates sp)) conditionType
          then Inr (False, sp)
          else Inr (True,
                    sp\<lparr>ReadinessGates :=
                         append_slice (ReadinessGates sp) \<lparr>ConditionType = conditionType\<rparr>\<rparr>))"

subsection \<open>Example values\<close>

text \<open>
  A running pod with two conditions, \<open>PodScheduled\<close> true and \<open>Ready\<close> false, one
  readiness gate, and some conditions to write to it. The theorems below are
  instantiated at these values.
\<close>

definition exampleScheduled :: PodCondition where
  "exampleScheduled =
     \<lparr>Type = ''PodScheduled'', Status = ''True'', LastProbeTime = Time 0,
      LastTransitionTime = Time 50, Reason = '''', Message = ''''\<rparr>"

definition exampleReadyFalse :: PodCondition where
  "exampleReadyFalse =
     \<lparr>Type = ''Ready'', Status = ''False'', LastProbeTime = Time 0,
      LastTransitionTime = Time 100, Reason = ''ContainersNotReady'', Message = ''''\<rparr>"

definition exampleReadyTrue :: PodCondition where
  "exampleReadyTrue =
     \<lparr>Type = ''Ready'', Status = ''True'', LastProbeTime = Time 0,
      LastTransitionTime = Time 0, Reason = '''', Message = ''''\<rparr>"

definition exampleReadyStillFalse :: PodCondition where
  "exampleReadyStillFalse =
     \<lparr>Type = ''Ready'', Status = ''False'', LastProbeTime = Time 0,
      LastTransitionTime = Time 0, Reason = ''ReadinessGatesNotReady'', Message = ''''\<rparr>"

definition exampleReadySame :: PodCondition where
  "exampleReadySame =
     \<lparr>Type = ''Ready'', Status = ''False'', LastProbeTime = Time 0,
      LastTransitionTime = Time 0, Reason = ''ContainersNotReady'', Message = ''''\<rparr>"

definition exampleInitialized :: PodCondition where
  "exampleInitialized =
     \<lparr>Type = ''Initialized'', Status = ''True'', LastProbeTime = Time 0,
      LastTransitionTime = Time 0, Reason = '''', Message = ''''\<rparr>"

definition exampleStatus :: PodStatus where
  "exampleStatus =
     \<lparr>Phase = ''Running'', Conditions = Some [exampleScheduled, exampleReadyFalse]\<rparr>"

definition exampleSpec :: PodSpec where
  "exampleSpec = \<lparr>ReadinessGates = Some [\<lparr>ConditionType = ''Online''\<rparr>]\<rparr>"

definition examplePod :: Pod where
  "examplePod =
     \<lparr>Name = ''web-0'', DeletionTimestamp = None, Spec = exampleSpec,
      Status_Pod = exampleStatus\<rparr>"

definition exampleDeletedPod :: Pod where
  "exampleDeletedPod =
     \<lparr>Name = ''web-1'', DeletionTimestamp = Some (Time 300), Spec = exampleSpec,
      Status_Pod = exampleStatus\<rparr>"

lemmas example_defs =
  exampleScheduled_def exampleReadyFalse_def exampleReadyTrue_def exampleReadyStillFalse_def
  exampleReadySame_def exampleInitialized_def exampleStatus_def exampleSpec_def
  examplePod_def exampleDeletedPod_def

section \<open>Properties\<close>

subsection \<open>Slices and times\<close>

lemma elems_simps: "elems None = []" "elems (Some xs) = xs"
  by (simp_all add: elems_def)

lemma Equal_present: "Equal (Some a) (Some b) \<longleftrightarrow> a = b"
  by (cases a; cases b) (simp add: Equal_def)

lemma IsZero_iff: "IsZero t \<longleftrightarrow> t = None \<or> t = Some (Time 0)"
proof (cases t)
  case None
  then show ?thesis by (simp add: IsZero_def)
next
  case (Some u)
  then show ?thesis by (cases u) (simp add: IsZero_def)
qed

subsection \<open>Reads and writes through the condition pointer\<close>

lemma deref_Own: "deref status (Own c) = Inr c"
  by (simp add: deref_def)

lemma deref_Elem:
  "i < length (elems (Conditions st)) \<Longrightarrow>
     deref (Some st) (Elem i) = Inr (elems (Conditions st) ! i)"
  by (simp add: deref_def)

lemma assign_Own:
  "assign_LastTransitionTime t status (Own c) = (status, Own (c\<lparr>LastTransitionTime := t\<rparr>))"
  by (simp add: assign_LastTransitionTime_def)

lemma assign_Elem:
  "assign_LastTransitionTime t (Some st) (Elem i) =
     (Some (st\<lparr>Conditions :=
               map_option (\<lambda>xs. xs[i := (xs ! i)\<lparr>LastTransitionTime := t\<rparr>]) (Conditions st)\<rparr>),
      Elem i)"
  by (simp add: assign_LastTransitionTime_def)

subsection \<open>The lookup loop\<close>

lemma loop_absent:
  "conditionType \<notin> Type ` set cs \<Longrightarrow>
     GetPodConditionFromList_loop cs conditionType i = (- 1, None)"
  by (induction cs arbitrary: i) auto

text \<open>
  When the type occurs, the loop started at position \<open>i\<close> stops at the first
  occurrence, \<open>k\<close> entries further on.
\<close>

lemma loop_present:
  "conditionType \<in> Type ` set cs \<Longrightarrow>
     \<exists>k. k < length cs \<and>
         GetPodConditionFromList_loop cs conditionType i = (int (i + k), Some (cs ! k)) \<and>
         Type (cs ! k) = conditionType \<and>
         (\<forall>j<k. Type (cs ! j) \<noteq> conditionType)"
proof (induction cs arbitrary: i)
  case Nil
  then show ?case by simp
next
  case (Cons c cs)
  show ?case
  proof (cases "Type c = conditionType")
    case True
    then show ?thesis by (intro exI [of _ 0]) simp
  next
    case False
    with Cons.prems have "conditionType \<in> Type ` set cs" by auto
    from Cons.IH [OF this, of "Suc i"] obtain k where k:
      "k < length cs"
      "GetPodConditionFromList_loop cs conditionType (Suc i) = (int (Suc i + k), Some (cs ! k))"
      "Type (cs ! k) = conditionType"
      "\<forall>j<k. Type (cs ! j) \<noteq> conditionType"
      by blast
    show ?thesis
    proof (intro exI [of _ "Suc k"] conjI)
      show "\<forall>j<Suc k. Type ((c # cs) ! j) \<noteq> conditionType"
        using False k(4) by (auto simp: nth_Cons split: nat.splits)
    qed (use False k in simp_all)
  qed
qed

lemma loop_cases:
  "GetPodConditionFromList_loop cs t i = (- 1, None) \<and> t \<notin> Type ` set cs \<or>
   (\<exists>k. k < length cs \<and>
        GetPodConditionFromList_loop cs t i = (int (i + k), Some (cs ! k)) \<and>
        Type (cs ! k) = t \<and> (\<forall>j<k. Type (cs ! j) \<noteq> t))"
  using loop_absent loop_present by blast

text \<open>What a successful lookup in a present status tells about the slice.\<close>

lemma GetPodCondition_found:
  assumes "GetPodCondition (Some st) t = (idx, Some old)"
  shows "0 \<le> idx \<and> nat idx < length (elems (Conditions st)) \<and>
         elems (Conditions st) ! nat idx = old \<and> Type old = t \<and>
         (\<forall>j<nat idx. Type (elems (Conditions st) ! j) \<noteq> t) \<and>
         Conditions st = Some (elems (Conditions st))"
proof -
  from assms obtain xs where xs: "Conditions st = Some xs"
    by (cases "Conditions st") (simp_all add: GetPodCondition_def GetPodConditionFromList_def)
  with assms have l: "GetPodConditionFromList_loop xs t 0 = (idx, Some old)"
    by (simp add: GetPodCondition_def GetPodConditionFromList_def)
  from loop_cases [of xs t 0] l show ?thesis
    by (auto simp: xs elems_def)
qed

lemma GetPodCondition_absent:
  "snd (GetPodCondition (Some st) t) = None \<longleftrightarrow> t \<notin> Type ` set (elems (Conditions st))"
proof (cases "Conditions st")
  case None
  then show ?thesis
    by (simp add: GetPodCondition_def GetPodConditionFromList_def elems_def)
next
  case (Some xs)
  from loop_cases [of xs t 0] show ?thesis
    by (auto simp: Some GetPodCondition_def GetPodConditionFromList_def elems_def)
qed

lemma GetPodCondition_present:
  assumes "Type c \<in> Type ` set (elems (Conditions st))"
  obtains idx old where "GetPodCondition (Some st) (Type c) = (idx, Some old)"
proof -
  from assms have "snd (GetPodCondition (Some st) (Type c)) \<noteq> None"
    by (simp add: GetPodCondition_absent)
  then show ?thesis
    using that by (cases "GetPodCondition (Some st) (Type c)") auto
qed

text \<open>The lookup after a write of a transition time into the slice.\<close>

lemma loop_found_from:
  "GetPodConditionFromList_loop cs t n = (k, Some c) \<Longrightarrow> int n \<le> k"
  using loop_cases [of cs t n] by auto

lemma loop_update:
  "GetPodConditionFromList_loop (cs[i := (cs ! i)\<lparr>LastTransitionTime := v\<rparr>]) t n =
     (case GetPodConditionFromList_loop cs t n of
        (k, None) \<Rightarrow> (k, None)
      | (k, Some c) \<Rightarrow>
          (k, Some (if k = int (n + i) then c\<lparr>LastTransitionTime := v\<rparr> else c)))"
proof (induction cs arbitrary: i n)
  case Nil
  then show ?case by simp
next
  case (Cons a cs)
  show ?case
  proof (cases i)
    case 0
    show ?thesis
    proof (cases "Type a = t")
      case True
      with 0 show ?thesis by simp
    next
      case False
      obtain k r where l: "GetPodConditionFromList_loop cs t (Suc n) = (k, r)"
        by (cases "GetPodConditionFromList_loop cs t (Suc n)")
      show ?thesis
      proof (cases r)
        case None
        with False 0 l show ?thesis by simp
      next
        case (Some c)
        with l loop_found_from [of cs t "Suc n" k c] have "k \<noteq> int n" by simp
        with False 0 l Some show ?thesis by simp
      qed
    qed
  next
    case (Suc j)
    show ?thesis
    proof (cases "Type a = t")
      case True
      with Suc show ?thesis by simp
    next
      case False
      with Suc Cons.IH [of j "Suc n"] show ?thesis
        by (simp split: prod.splits option.splits)
    qed
  qed
qed

lemma GetPodCondition_after_assign:
  assumes "Conditions st = Some xs"
  shows "GetPodCondition
           (Some (st\<lparr>Conditions := Some (xs[i := (xs ! i)\<lparr>LastTransitionTime := v\<rparr>])\<rparr>)) t =
         (case GetPodCondition (Some st) t of
            (k, None) \<Rightarrow> (k, None)
          | (k, Some c) \<Rightarrow> (k, Some (if k = int i then c\<lparr>LastTransitionTime := v\<rparr> else c)))"
  using assms loop_update [of xs i v t 0]
  by (simp add: GetPodCondition_def GetPodConditionFromList_def
      split: prod.splits option.splits)

lemma Conditions_present:
  assumes "i < length (elems (Conditions st))"
  obtains xs where "Conditions st = Some xs" and "i < length xs"
  using assms by (cases "Conditions st") (simp_all add: elems_simps)

subsection \<open>Lookups\<close>

text \<open>
  Claim C4. \<open>GetPodCondition\<close> and \<open>GetPodConditionFromList\<close> return the pair
  \<open>(-1, nil)\<close> when the status is nil, when the condition slice is nil or empty, and
  when no entry has the type asked for. Otherwise they return the first entry of that
  type in the order of the slice, with its position: the entry at the returned index
  \<open>k\<close> has the type, and no entry before \<open>k\<close> has it. \<open>GetPodCondition\<close> on a status
  that is present is \<open>GetPodConditionFromList\<close> on its slice.
\<close>

theorem GetPodCondition_first_match:
  "GetPodCondition None t = (- 1, None) \<and>
   GetPodConditionFromList None t = (- 1, None) \<and>
   GetPodConditionFromList (Some []) t = (- 1, None) \<and>
   GetPodCondition (Some st) t = GetPodConditionFromList (Conditions st) t \<and>
   (t \<notin> Type ` set (elems cs) \<longrightarrow> GetPodConditionFromList cs t = (- 1, None)) \<and>
   (t \<in> Type ` set (elems cs) \<longrightarrow>
      (\<exists>k. k < length (elems cs) \<and>
           GetPodConditionFromList cs t = (int k, Some (elems cs ! k)) \<and>
           Type (elems cs ! k) = t \<and>
           (\<forall>j<k. Type (elems cs ! j) \<noteq> t)))"
proof (intro conjI impI)
  assume "t \<notin> Type ` set (elems cs)"
  then show "GetPodConditionFromList cs t = (- 1, None)"
    by (cases cs) (simp_all add: GetPodConditionFromList_def elems_def loop_absent)
next
  assume a: "t \<in> Type ` set (elems cs)"
  then obtain xs where cs: "cs = Some xs"
    by (cases cs) (simp_all add: elems_def)
  with a have "t \<in> Type ` set xs" by (simp add: elems_def)
  from loop_present [OF this, of 0] show
    "\<exists>k. k < length (elems cs) \<and>
         GetPodConditionFromList cs t = (int k, Some (elems cs ! k)) \<and>
         Type (elems cs ! k) = t \<and> (\<forall>j<k. Type (elems cs ! j) \<noteq> t)"
    by (simp add: cs GetPodConditionFromList_def elems_def)
qed (simp_all add: GetPodCondition_def GetPodConditionFromList_def)

text \<open>
  In a slice with two \<open>Ready\<close> entries the lookup returns the first, at index 1; the
  type \<open>Initialized\<close>, which the example status does not hold, is not found.
\<close>

theorem GetPodCondition_first_match_witness:
  "GetPodConditionFromList (Some [exampleScheduled, exampleReadyFalse, exampleReadyTrue]) ''Ready''
     = (1, Some exampleReadyFalse) \<and>
   GetPodCondition (Some exampleStatus) ''Initialized'' = (- 1, None)"
proof -
  let ?cs = "Some [exampleScheduled, exampleReadyFalse, exampleReadyTrue]"
  have "''Ready'' \<in> Type ` set (elems ?cs)"
    by (simp add: elems_simps example_defs)
  with GetPodCondition_first_match [of "''Ready''" exampleStatus ?cs]
  obtain k where k: "k < length (elems ?cs)"
    "GetPodConditionFromList ?cs ''Ready'' = (int k, Some (elems ?cs ! k))"
    "Type (elems ?cs ! k) = ''Ready''" "\<forall>j<k. Type (elems ?cs ! j) \<noteq> ''Ready''"
    by blast
  have "Type (elems ?cs ! 0) \<noteq> ''Ready''"
    by (simp add: elems_simps example_defs)
  with k(3) have "k \<noteq> 0"
    by metis
  moreover from k(4) have "1 < k \<longrightarrow> Type (elems ?cs ! 1) \<noteq> ''Ready''"
    by blast
  then have "\<not> 1 < k"
    by (simp add: elems_simps example_defs)
  ultimately have "k = 1"
    by simp
  with k(2) have first: "GetPodConditionFromList ?cs ''Ready'' = (1, Some exampleReadyFalse)"
    by (simp add: elems_simps)
  have "''Initialized'' \<notin> Type ` set (elems (Conditions exampleStatus))"
    by (simp add: elems_simps example_defs)
  with GetPodCondition_first_match [of "''Initialized''" exampleStatus "Conditions exampleStatus"]
  have "GetPodCondition (Some exampleStatus) ''Initialized'' = (- 1, None)"
    by simp
  with first show ?thesis by simp
qed

subsection \<open>Names and phases\<close>

lemma GetPodNames_loop_present:
  "GetPodNames_loop (map Some ps) result = Inr (result @ map Name ps)"
  by (induction ps arbitrary: result) simp_all

text \<open>
  Claim C8. For every sequence \<open>ps\<close> of pods, \<open>GetPodNames\<close> on the slice of pointers
  to them returns the names of the pods in the same order: the result has the length
  of the input and its \<open>i\<close>-th element is the name of the \<open>i\<close>-th pod. The empty slice
  and the nil slice both give the empty, non-nil slice.
\<close>

theorem GetPodNames_names:
  "GetPodNames (Some (map Some ps)) = Inr (Some (map Name ps)) \<and>
   (\<exists>names. GetPodNames (Some (map Some ps)) = Inr (Some names) \<and>
      length names = length ps \<and> (\<forall>i<length ps. names ! i = Name (ps ! i))) \<and>
   GetPodNames (Some []) = Inr (Some []) \<and>
   GetPodNames None = Inr (Some [])"
  by (simp add: GetPodNames_def elems_def GetPodNames_loop_present)

theorem GetPodNames_names_witness:
  "GetPodNames (Some [Some examplePod, Some exampleDeletedPod]) = Inr (Some [''web-0'', ''web-1''])"
  using GetPodNames_names [of "[examplePod, exampleDeletedPod]"]
  by (simp add: example_defs)

text \<open>
  Claim C9. \<open>IsPodActive\<close> on a pod returns true if and only if the phase of the pod is
  neither \<open>Succeeded\<close> nor \<open>Failed\<close> and its deletion timestamp is nil or the zero time.
  So a pod whose phase is \<open>Succeeded\<close> or \<open>Failed\<close> is not active whatever its deletion
  timestamp, and a pod in any other phase with a nil or zero deletion timestamp is
  active.
\<close>

theorem IsPodActive_iff:
  "IsPodActive (Some p) =
     Inr (Phase (Status_Pod p) \<noteq> PodSucceeded \<and> Phase (Status_Pod p) \<noteq> PodFailed \<and>
          (DeletionTimestamp p = None \<or> DeletionTimestamp p = Some (Time 0))) \<and>
   (Phase (Status_Pod p) = PodSucceeded \<or> Phase (Status_Pod p) = PodFailed \<longrightarrow>
      IsPodActive (Some p) = Inr False) \<and>
   (Phase (Status_Pod p) \<noteq> PodSucceeded \<and> Phase (Status_Pod p) \<noteq> PodFailed \<and>
    (DeletionTimestamp p = None \<or> DeletionTimestamp p = Some (Time 0)) \<longrightarrow>
      IsPodActive (Some p) = Inr True)"
  by (auto simp: IsPodActive_def IsZero_iff)

text \<open>
  The running example pod is active; the same pod is not once its phase is
  \<open>Succeeded\<close>, and not once it carries a deletion timestamp.
\<close>

theorem IsPodActive_iff_witness:
  "IsPodActive (Some examplePod) = Inr True \<and>
   IsPodActive (Some (examplePod\<lparr>Status_Pod := exampleStatus\<lparr>Phase := PodSucceeded\<rparr>\<rparr>)) = Inr False \<and>
   IsPodActive (Some exampleDeletedPod) = Inr False"
  using IsPodActive_iff [of examplePod]
    IsPodActive_iff [of "examplePod\<lparr>Status_Pod := exampleStatus\<lparr>Phase := PodSucceeded\<rparr>\<rparr>"]
    IsPodActive_iff [of exampleDeletedPod]
  by (simp add: example_defs PodSucceeded_def PodFailed_def)

subsection \<open>Updating a condition\<close>

text \<open>
  The two branches of \<open>UpdatePodCondition\<close> on a status and a condition record of its
  own: the append when the lookup finds nothing, the store at the index found otherwise.
  With the transition time restored before the comparison, the flag depends on the four
  other compared fields only.
\<close>

lemma UpdatePodCondition_append:
  assumes "Type c \<notin> Type ` set (elems (Conditions st))"
  shows "UpdatePodCondition now (Some st) (Some (Own c)) =
           Inr (True,
                st\<lparr>Conditions := Some (elems (Conditions st) @ [c\<lparr>LastTransitionTime := now\<rparr>])\<rparr>,
                c\<lparr>LastTransitionTime := now\<rparr>)"
proof -
  from assms have "snd (GetPodCondition (Some st) (Type c)) = None"
    by (simp add: GetPodCondition_absent)
  then obtain i where "GetPodCondition (Some st) (Type c) = (i, None)"
    by (cases "GetPodCondition (Some st) (Type c)") simp
  then show ?thesis
    by (simp add: UpdatePodCondition_def deref_Own assign_Own append_slice_def Let_def)
qed

lemma UpdatePodCondition_replace:
  assumes "GetPodCondition (Some st) (Type c) = (idx, Some old)"
  shows "UpdatePodCondition now (Some st) (Some (Own c)) =
           Inr (Status c \<noteq> Status old \<or> Reason c \<noteq> Reason old \<or> Message c \<noteq> Message old \<or>
                  LastProbeTime c \<noteq> LastProbeTime old,
                st\<lparr>Conditions :=
                     Some ((elems (Conditions st))
                       [nat idx := c\<lparr>LastTransitionTime :=
                                      if Status c = Status old then LastTransitionTime old else now\<rparr>])\<rparr>,
                c\<lparr>LastTransitionTime :=
                    if Status c = Status old then LastTransitionTime old else now\<rparr>)"
proof -
  from GetPodCondition_found [OF assms]
  have "0 \<le> idx" "nat idx < length (elems (Conditions st))"
    "elems (Conditions st) ! nat idx = old" by simp_all
  with assms show ?thesis
    by (auto simp add: UpdatePodCondition_def deref_Own assign_Own Equal_present Let_def)
qed

text \<open>
  On a condition record of its own the call does what the specification says of it.
  Let \<open>old\<close> be the entry the lookup finds, at index \<open>idx\<close>. The call stores at \<open>idx\<close>
  the whole of \<open>c\<close>, its transition time being that of \<open>old\<close> when the two have the
  same \<open>Status\<close> and \<open>now\<close> otherwise, and returns false if and only if \<open>Status\<close>,
  \<open>Reason\<close>, \<open>Message\<close>, \<open>LastProbeTime\<close> and the transition time so restored are
  those of \<open>old\<close>.
\<close>

lemma UpdatePodCondition_own_changed:
  assumes "GetPodCondition (Some st) (Type c) = (idx, Some old)"
  shows "\<exists>changed c'.
           UpdatePodCondition now (Some st) (Some (Own c)) =
             Inr (changed, st\<lparr>Conditions := Some ((elems (Conditions st))[nat idx := c'])\<rparr>, c') \<and>
           0 \<le> idx \<and> nat idx < length (elems (Conditions st)) \<and>
           elems (Conditions st) ! nat idx = old \<and>
           c' = c\<lparr>LastTransitionTime :=
                   if Status c = Status old then LastTransitionTime old else now\<rparr> \<and>
           (changed = False \<longleftrightarrow>
              Status c' = Status old \<and> Reason c' = Reason old \<and> Message c' = Message old \<and>
              LastProbeTime c' = LastProbeTime old \<and>
              LastTransitionTime c' = LastTransitionTime old) \<and>
           (Status c \<noteq> Status old \<longrightarrow> changed) \<and>
           (Status c = Status old \<and>
            (Reason c \<noteq> Reason old \<or> Message c \<noteq> Message old \<or>
             LastProbeTime c \<noteq> LastProbeTime old) \<longrightarrow>
              changed \<and> LastTransitionTime c' = LastTransitionTime old)"
proof -
  from GetPodCondition_found [OF assms]
  have f: "0 \<le> idx" "nat idx < length (elems (Conditions st))"
    "elems (Conditions st) ! nat idx = old" by simp_all
  show ?thesis
    unfolding UpdatePodCondition_replace [OF assms]
    using f by auto
qed

lemma UpdatePodCondition_own_transition_time:
  "(GetPodCondition (Some st) (Type c) = (idx, Some old) \<and> Status c = Status old \<longrightarrow>
      (\<exists>changed st' c'.
         UpdatePodCondition now (Some st) (Some (Own c)) = Inr (changed, st', c') \<and>
         Type (elems (Conditions st') ! nat idx) = Type c \<and>
         LastTransitionTime (elems (Conditions st') ! nat idx) = LastTransitionTime old)) \<and>
   (Type c \<notin> Type ` set (elems (Conditions st)) \<longrightarrow>
      UpdatePodCondition now (Some st) (Some (Own c)) =
        Inr (True,
             st\<lparr>Conditions := Some (elems (Conditions st) @ [c\<lparr>LastTransitionTime := now\<rparr>])\<rparr>,
             c\<lparr>LastTransitionTime := now\<rparr>)) \<and>
   (GetPodCondition (Some st) (Type c) = (idx, Some old) \<and> Status c \<noteq> Status old \<longrightarrow>
      (\<exists>st' c'.
         UpdatePodCondition now (Some st) (Some (Own c)) = Inr (True, st', c') \<and>
         Type (elems (Conditions st') ! nat idx) = Type c \<and>
         LastTransitionTime (elems (Conditions st') ! nat idx) = now))"
proof (intro conjI impI)
  assume a: "GetPodCondition (Some st) (Type c) = (idx, Some old) \<and> Status c = Status old"
  from GetPodCondition_found [of st "Type c" idx old] a
  have "nat idx < length (elems (Conditions st))" by simp
  with a show "\<exists>changed st' c'.
         UpdatePodCondition now (Some st) (Some (Own c)) = Inr (changed, st', c') \<and>
         Type (elems (Conditions st') ! nat idx) = Type c \<and>
         LastTransitionTime (elems (Conditions st') ! nat idx) = LastTransitionTime old"
    by (simp add: UpdatePodCondition_replace elems_simps)
next
  assume "Type c \<notin> Type ` set (elems (Conditions st))"
  then show "UpdatePodCondition now (Some st) (Some (Own c)) =
        Inr (True,
             st\<lparr>Conditions := Some (elems (Conditions st) @ [c\<lparr>LastTransitionTime := now\<rparr>])\<rparr>,
             c\<lparr>LastTransitionTime := now\<rparr>)"
    by (rule UpdatePodCondition_append)
next
  assume a: "GetPodCondition (Some st) (Type c) = (idx, Some old) \<and> Status c \<noteq> Status old"
  from GetPodCondition_found [of st "Type c" idx old] a
  have "nat idx < length (elems (Conditions st))" by simp
  with a show "\<exists>st' c'.
         UpdatePodCondition now (Some st) (Some (Own c)) = Inr (True, st', c') \<and>
         Type (elems (Conditions st') ! nat idx) = Type c \<and>
         LastTransitionTime (elems (Conditions st') ! nat idx) = now"
    by (simp add: UpdatePodCondition_replace elems_simps)
qed

text \<open>
  The scenario of the specification: the status holds \<open>Ready\<close> with status false, the
  update brings a record \<open>Ready\<close> with status true at time 200. The call returns true
  and the stored \<open>Ready\<close> entry is the new one with transition time 200.
\<close>

lemma UpdatePodCondition_scenario:
  "UpdatePodCondition (Time 200) (Some exampleStatus) (Some (Own exampleReadyTrue)) =
     Inr (True,
          exampleStatus\<lparr>Conditions :=
            Some [exampleScheduled, exampleReadyTrue\<lparr>LastTransitionTime := Time 200\<rparr>]\<rparr>,
          exampleReadyTrue\<lparr>LastTransitionTime := Time 200\<rparr>)"
proof -
  have h: "GetPodCondition (Some exampleStatus) (Type exampleReadyTrue) =
             (1, Some exampleReadyFalse)"
    by (simp add: GetPodCondition_def GetPodConditionFromList_def example_defs)
  have d: "Status exampleReadyTrue \<noteq> Status exampleReadyFalse"
    by (simp add: example_defs)
  have "(elems (Conditions exampleStatus))[nat 1 := c'] = [exampleScheduled, c']" for c'
    by (simp add: exampleStatus_def elems_simps)
  with d show ?thesis
    by (simp add: UpdatePodCondition_replace [OF h])
qed

text \<open>
  The call on the pointer to the entry that the lookup finds: the entry is compared
  with itself.
\<close>

lemma UpdatePodCondition_elem_found:
  assumes i: "i < length (elems (Conditions st))"
    and l: "GetPodCondition (Some st) (Type (elems (Conditions st) ! i)) = (int i, Some old)"
  shows "UpdatePodCondition now (Some st) (Some (Elem i)) =
           Inr (False,
                st\<lparr>Conditions :=
                     Some ((elems (Conditions st))
                       [i := (elems (Conditions st) ! i)\<lparr>LastTransitionTime := now\<rparr>])\<rparr>,
                (elems (Conditions st) ! i)\<lparr>LastTransitionTime := now\<rparr>)"
proof -
  from i obtain xs where xs: "Conditions st = Some xs" "i < length xs"
    by (rule Conditions_present)
  from l have l': "GetPodCondition (Some st) (Type (xs ! i)) = (int i, Some old)"
    by (simp add: xs elems_simps)
  show ?thesis
    using xs l'
    by (simp add: UpdatePodCondition_def deref_def assign_Elem elems_simps
        GetPodCondition_after_assign Equal_present Let_def)
qed

text \<open>
  The call on the pointer to a later entry of a type that occurs before: the entry
  found is another one, and both end as the same record.
\<close>

lemma UpdatePodCondition_elem_later:
  assumes i: "i < length (elems (Conditions st))"
    and l: "GetPodCondition (Some st) (Type (elems (Conditions st) ! i)) = (idx, Some old)"
    and d: "idx \<noteq> int i"
  shows "UpdatePodCondition now (Some st) (Some (Elem i)) =
           Inr (Status (elems (Conditions st) ! i) \<noteq> Status old \<or>
                Reason (elems (Conditions st) ! i) \<noteq> Reason old \<or>
                Message (elems (Conditions st) ! i) \<noteq> Message old \<or>
                LastProbeTime (elems (Conditions st) ! i) \<noteq> LastProbeTime old,
                st\<lparr>Conditions :=
                     Some ((elems (Conditions st))
                       [i := (elems (Conditions st) ! i)\<lparr>LastTransitionTime :=
                               if Status (elems (Conditions st) ! i) = Status old
                               then LastTransitionTime old else now\<rparr>,
                        nat idx := (elems (Conditions st) ! i)\<lparr>LastTransitionTime :=
                               if Status (elems (Conditions st) ! i) = Status old
                               then LastTransitionTime old else now\<rparr>])\<rparr>,
                (elems (Conditions st) ! i)\<lparr>LastTransitionTime :=
                   if Status (elems (Conditions st) ! i) = Status old
                   then LastTransitionTime old else now\<rparr>)"
proof -
  from i obtain xs where xs: "Conditions st = Some xs" "i < length xs"
    by (rule Conditions_present)
  from l have l': "GetPodCondition (Some st) (Type (xs ! i)) = (idx, Some old)"
    by (simp add: xs elems_simps)
  from GetPodCondition_found [OF l']
  have f: "0 \<le> idx" "nat idx < length xs" "xs ! nat idx = old"
    by (simp_all add: xs elems_simps)
  from d f(1) have ne: "nat idx \<noteq> i" "i \<noteq> nat idx" by auto
  show ?thesis
    using xs l' d f ne
    by (auto simp add: UpdatePodCondition_def deref_def assign_Elem elems_simps
        GetPodCondition_after_assign Equal_present Let_def)
qed

text \<open>
  The pointer \<open>&status.Conditions[1]\<close> of the example status is the pointer to its
  \<open>Ready\<close> entry, the one the lookup of \<open>Ready\<close> returns.
\<close>

lemma example_Ready_entry:
  "1 < length (elems (Conditions exampleStatus))"
  "GetPodCondition (Some exampleStatus) (Type (elems (Conditions exampleStatus) ! 1)) =
     (int 1, Some exampleReadyFalse)"
  by (simp_all add: GetPodCondition_def GetPodConditionFromList_def elems_simps example_defs)

text \<open>
  Claim C1. The claim is that \<open>UpdatePodCondition\<close> returns false if and only if
  \<open>Status\<close>, \<open>Reason\<close>, \<open>Message\<close>, \<open>LastProbeTime\<close> and the transition time it stores
  are those of the prior entry, the stored transition time being rolled back to the old
  value when \<open>Status\<close> is unchanged. The code does so on a condition record of its own
  (\<open>UpdatePodCondition_own_changed\<close>), and not on the pointer to the stored entry
  itself: line 91 writes \<open>now\<close> into that entry before the lookup, the lookup returns the
  same pointer, line 102 assigns the entry its own transition time, and the comparison
  compares the entry with itself. On the example status, whose \<open>Ready\<close> entry has
  transition time 100, the call at time 200 on \<open>&status.Conditions[1]\<close> returns false,
  and the stored entry is no longer the prior one: its transition time is 200.
\<close>

theorem UpdatePodCondition_aliased_changed:
  "UpdatePodCondition (Time 200) (Some exampleStatus) (Some (Elem 1)) =
     Inr (False,
          exampleStatus\<lparr>Conditions :=
            Some [exampleScheduled, exampleReadyFalse\<lparr>LastTransitionTime := Time 200\<rparr>]\<rparr>,
          exampleReadyFalse\<lparr>LastTransitionTime := Time 200\<rparr>) \<and>
   exampleReadyFalse\<lparr>LastTransitionTime := Time 200\<rparr> \<noteq> exampleReadyFalse"
proof -
  note UpdatePodCondition_elem_found [OF example_Ready_entry, of "Time 200"]
  moreover have "elems (Conditions exampleStatus) = [exampleScheduled, exampleReadyFalse]"
    by (simp add: elems_simps exampleStatus_def)
  moreover have "exampleReadyFalse\<lparr>LastTransitionTime := Time 200\<rparr> \<noteq> exampleReadyFalse"
    by (simp add: exampleReadyFalse_def)
  ultimately show ?thesis by simp
qed

text \<open>
  Claim C2. The claim is that \<open>UpdatePodCondition\<close> keeps the transition time of the
  old entry in the stored entry when \<open>Status\<close> is unchanged, and stores \<open>now\<close> only
  when the type is new or \<open>Status\<close> differs. The code does so on a condition record of
  its own (\<open>UpdatePodCondition_own_transition_time\<close>), and not on the pointer to the
  stored entry itself, for the reason given at claim C1. On the example status the call
  at time 300 on \<open>&status.Conditions[1]\<close> leaves the \<open>Status\<close> of the \<open>Ready\<close> entry as
  it was, false, and its transition time, which was 100, is 300.
\<close>

theorem UpdatePodCondition_aliased_transition_time:
  "UpdatePodCondition (Time 300) (Some exampleStatus) (Some (Elem 1)) =
     Inr (False,
          exampleStatus\<lparr>Conditions :=
            Some [exampleScheduled, exampleReadyFalse\<lparr>LastTransitionTime := Time 300\<rparr>]\<rparr>,
          exampleReadyFalse\<lparr>LastTransitionTime := Time 300\<rparr>) \<and>
   Status (exampleReadyFalse\<lparr>LastTransitionTime := Time 300\<rparr>) = Status exampleReadyFalse \<and>
   LastTransitionTime exampleReadyFalse = Time 100"
proof -
  note UpdatePodCondition_elem_found [OF example_Ready_entry, of "Time 300"]
  moreover have "elems (Conditions exampleStatus) = [exampleScheduled, exampleReadyFalse]"
    by (simp add: elems_simps exampleStatus_def)
  moreover have "LastTransitionTime exampleReadyFalse = Time 100"
    by (simp add: exampleReadyFalse_def)
  ultimately show ?thesis by simp
qed

subsection \<open>Adding a condition\<close>

lemma AddPodCondition_present:
  assumes "Type c \<in> Type ` set (elems (Conditions st))"
  shows "AddPodCondition now (Some st) (Some c) = Inr (False, Some st, c)"
proof -
  from assms have "snd (GetPodCondition (Some st) (Type c)) \<noteq> None"
    by (simp add: GetPodCondition_absent)
  then show ?thesis
    by (auto simp: AddPodCondition_def)
qed

lemma AddPodCondition_absent:
  assumes "Type c \<notin> Type ` set (elems (Conditions st))"
  shows "AddPodCondition now (Some st) (Some c) =
           Inr (True,
                Some (st\<lparr>Conditions :=
                           Some (elems (Conditions st) @ [c\<lparr>LastTransitionTime := now\<rparr>])\<rparr>),
                c\<lparr>LastTransitionTime := now\<rparr>)"
proof -
  from assms have "snd (GetPodCondition (Some st) (Type c)) = None"
    by (simp add: GetPodCondition_absent)
  then show ?thesis
    by (simp add: AddPodCondition_def append_slice_def Let_def)
qed

text \<open>
  Claim C5. When the status holds a condition of the type of \<open>c\<close>, \<open>AddPodCondition\<close>
  returns false and the status it leaves is the status it got: the condition slice, its
  length and every entry are unchanged. When the status holds none, it returns true and
  the status it leaves has one more entry, at the end: \<open>c\<close> with its transition time set
  to \<open>now\<close>.
\<close>

theorem AddPodCondition_if_absent:
  "(Type c \<in> Type ` set (elems (Conditions st)) \<longrightarrow>
      AddPodCondition now (Some st) (Some c) = Inr (False, Some st, c)) \<and>
   (Type c \<notin> Type ` set (elems (Conditions st)) \<longrightarrow>
      AddPodCondition now (Some st) (Some c) =
        Inr (True,
             Some (st\<lparr>Conditions :=
                        Some (elems (Conditions st) @ [c\<lparr>LastTransitionTime := now\<rparr>])\<rparr>),
             c\<lparr>LastTransitionTime := now\<rparr>))"
  by (simp add: AddPodCondition_present AddPodCondition_absent)

text \<open>
  Adding \<open>Initialized\<close> to the example status appends it; adding it again to the result
  returns false and leaves the three entries.
\<close>

theorem AddPodCondition_if_absent_witness:
  "AddPodCondition (Time 200) (Some exampleStatus) (Some exampleInitialized) =
     Inr (True,
          Some (exampleStatus\<lparr>Conditions :=
            Some [exampleScheduled, exampleReadyFalse,
                  exampleInitialized\<lparr>LastTransitionTime := Time 200\<rparr>]\<rparr>),
          exampleInitialized\<lparr>LastTransitionTime := Time 200\<rparr>) \<and>
   AddPodCondition (Time 300)
     (Some (exampleStatus\<lparr>Conditions :=
        Some [exampleScheduled, exampleReadyFalse,
              exampleInitialized\<lparr>LastTransitionTime := Time 200\<rparr>]\<rparr>))
     (Some exampleInitialized) =
     Inr (False,
          Some (exampleStatus\<lparr>Conditions :=
            Some [exampleScheduled, exampleReadyFalse,
                  exampleInitialized\<lparr>LastTransitionTime := Time 200\<rparr>]\<rparr>),
          exampleInitialized)"
proof -
  let ?st' = "exampleStatus\<lparr>Conditions :=
                Some [exampleScheduled, exampleReadyFalse,
                      exampleInitialized\<lparr>LastTransitionTime := Time 200\<rparr>]\<rparr>"
  have absent: "Type exampleInitialized \<notin> Type ` set (elems (Conditions exampleStatus))"
    by (simp add: elems_simps example_defs)
  have present: "Type exampleInitialized \<in> Type ` set (elems (Conditions ?st'))"
    by (simp add: elems_simps)
  have vals: "elems (Conditions exampleStatus) = [exampleScheduled, exampleReadyFalse]"
    by (simp add: elems_simps example_defs)
  from AddPodCondition_if_absent [of exampleInitialized exampleStatus "Time 200"] absent
  have "AddPodCondition (Time 200) (Some exampleStatus) (Some exampleInitialized) =
          Inr (True, Some ?st', exampleInitialized\<lparr>LastTransitionTime := Time 200\<rparr>)"
    by (simp add: vals)
  moreover
  from AddPodCondition_if_absent [of exampleInitialized ?st' "Time 300"] present
  have "AddPodCondition (Time 300) (Some ?st') (Some exampleInitialized) =
          Inr (False, Some ?st', exampleInitialized)"
    by simp
  ultimately show ?thesis by simp
qed

subsection \<open>Adding a readiness gate\<close>

lemma AddPodReadinessGate_loop_iff:
  "AddPodReadinessGate_loop rgs t \<longleftrightarrow> t \<in> ConditionType ` set rgs"
  by (induction rgs) auto

text \<open>
  Claim C6. \<open>AddPodReadinessGate\<close> on a spec and a condition type: when a gate of the
  spec has the type, it returns false and leaves the spec as it is; otherwise it returns
  true and the spec has exactly one more gate, at the end of the list, holding the type.
\<close>

theorem AddPodReadinessGate_if_absent:
  "(t \<in> ConditionType ` set (elems (ReadinessGates sp)) \<longrightarrow>
      AddPodReadinessGate (Some sp) t = Inr (False, sp)) \<and>
   (t \<notin> ConditionType ` set (elems (ReadinessGates sp)) \<longrightarrow>
      AddPodReadinessGate (Some sp) t =
        Inr (True,
             sp\<lparr>ReadinessGates :=
                  Some (elems (ReadinessGates sp) @ [\<lparr>ConditionType = t\<rparr>])\<rparr>))"
  by (simp add: AddPodReadinessGate_def AddPodReadinessGate_loop_iff append_slice_def)

text \<open>
  The example spec has the gate \<open>Online\<close>: adding \<open>Online\<close> changes nothing, adding
  \<open>Warm\<close> appends it; a spec whose gate slice is nil gets a slice of one gate.
\<close>

theorem AddPodReadinessGate_if_absent_witness:
  "AddPodReadinessGate (Some exampleSpec) ''Online'' = Inr (False, exampleSpec) \<and>
   AddPodReadinessGate (Some exampleSpec) ''Warm'' =
     Inr (True,
          \<lparr>ReadinessGates = Some [\<lparr>ConditionType = ''Online''\<rparr>, \<lparr>ConditionType = ''Warm''\<rparr>]\<rparr>) \<and>
   AddPodReadinessGate (Some \<lparr>ReadinessGates = None\<rparr>) ''Warm'' =
     Inr (True, \<lparr>ReadinessGates = Some [\<lparr>ConditionType = ''Warm''\<rparr>]\<rparr>)"
proof -
  have "''Online'' \<in> ConditionType ` set (elems (ReadinessGates exampleSpec))"
    by (simp add: elems_simps exampleSpec_def)
  with AddPodReadinessGate_if_absent [of "''Online''" exampleSpec]
  have "AddPodReadinessGate (Some exampleSpec) ''Online'' = Inr (False, exampleSpec)"
    by simp
  moreover
  have "''Warm'' \<notin> ConditionType ` set (elems (ReadinessGates exampleSpec))"
    by (simp add: elems_simps exampleSpec_def)
  with AddPodReadinessGate_if_absent [of "''Warm''" exampleSpec]
  have "AddPodReadinessGate (Some exampleSpec) ''Warm'' =
     Inr (True,
          \<lparr>ReadinessGates = Some [\<lparr>ConditionType = ''Online''\<rparr>, \<lparr>ConditionType = ''Warm''\<rparr>]\<rparr>)"
    by (simp add: elems_simps exampleSpec_def)
  moreover
  have "''Warm'' \<notin> ConditionType ` set (elems (ReadinessGates \<lparr>ReadinessGates = None\<rparr>))"
    by (simp add: elems_simps)
  with AddPodReadinessGate_if_absent [of "''Warm''" "\<lparr>ReadinessGates = None\<rparr>"]
  have "AddPodReadinessGate (Some \<lparr>ReadinessGates = None\<rparr>) ''Warm'' =
     Inr (True, \<lparr>ReadinessGates = Some [\<lparr>ConditionType = ''Warm''\<rparr>]\<rparr>)"
    by (simp add: elems_simps)
  ultimately show ?thesis by simp
qed

subsection \<open>At most one entry per key\<close>

text \<open>
  The store of \<open>UpdatePodCondition\<close> writes an entry of the type that was there, so the
  list of the types of the entries is the same before and after.
\<close>

lemma map_Type_update:
  assumes "i < length xs" and "Type c = Type (xs ! i)"
  shows "map Type (xs[i := c]) = map Type xs"
proof -
  from assms have "(map Type xs)[i := Type c] = map Type xs"
    by (metis list_update_id nth_map)
  then show ?thesis by (simp add: map_update)
qed

lemma UpdatePodCondition_own_types:
  assumes "Type c \<in> Type ` set (elems (Conditions st))"
  shows "\<exists>changed st' c'.
           UpdatePodCondition now (Some st) (Some (Own c)) = Inr (changed, st', c') \<and>
           map Type (elems (Conditions st')) = map Type (elems (Conditions st))"
proof -
  from assms obtain idx old where l: "GetPodCondition (Some st) (Type c) = (idx, Some old)"
    by (rule GetPodCondition_present)
  from GetPodCondition_found [OF l]
  have "nat idx < length (elems (Conditions st))"
    and "Type (elems (Conditions st) ! nat idx) = Type c"
    by simp_all
  then have "map Type ((elems (Conditions st))[nat idx := c\<lparr>LastTransitionTime := t\<rparr>]) =
             map Type (elems (Conditions st))" for t
    by (intro map_Type_update) simp_all
  then show ?thesis
    by (auto simp add: UpdatePodCondition_replace [OF l] elems_simps simp del: map_update)
qed

lemma UpdatePodCondition_elem_types:
  assumes i: "i < length (elems (Conditions st))"
  shows "\<exists>changed st' c'.
           UpdatePodCondition now (Some st) (Some (Elem i)) = Inr (changed, st', c') \<and>
           map Type (elems (Conditions st')) = map Type (elems (Conditions st))"
proof -
  let ?xs = "elems (Conditions st)"
  from i have "Type (?xs ! i) \<in> Type ` set ?xs" by simp
  then obtain idx old where l: "GetPodCondition (Some st) (Type (?xs ! i)) = (idx, Some old)"
    by (rule GetPodCondition_present)
  from GetPodCondition_found [OF l]
  have f: "nat idx < length ?xs" "Type (?xs ! nat idx) = Type (?xs ! i)" "0 \<le> idx"
    by simp_all
  show ?thesis
  proof (cases "idx = int i")
    case True
    have "map Type (?xs[i := (?xs ! i)\<lparr>LastTransitionTime := now\<rparr>]) = map Type ?xs"
      using i by (intro map_Type_update) simp_all
    with True l show ?thesis
      by (auto simp add: UpdatePodCondition_elem_found [OF i] elems_simps simp del: map_update)
  next
    case False
    let ?c = "(?xs ! i)\<lparr>LastTransitionTime :=
                if Status (?xs ! i) = Status old then LastTransitionTime old else now\<rparr>"
    from False f(3) have ne: "nat idx \<noteq> i" by auto
    have one: "map Type (?xs[i := ?c]) = map Type ?xs"
      using i by (intro map_Type_update) simp_all
    have "map Type (?xs[i := ?c, nat idx := ?c]) = map Type (?xs[i := ?c])"
      using f(1,2) ne by (intro map_Type_update) simp_all
    with one have "map Type (?xs[i := ?c, nat idx := ?c]) = map Type ?xs"
      by simp
    then show ?thesis
      by (auto simp add: UpdatePodCondition_elem_later [OF i l False] elems_simps
          simp del: map_update)
  qed
qed

text \<open>
  Claim C7. When the conditions of a status have pairwise different types, so have the
  conditions of the status that \<open>UpdatePodCondition\<close> leaves, on a condition record of
  its own and on a pointer into the slice of the status alike, and of the status that
  \<open>AddPodCondition\<close> leaves; when the readiness gates of a spec have pairwise different
  condition types, so have the gates of the spec that \<open>AddPodReadinessGate\<close> leaves.
  Each of the calls returns.
\<close>

theorem at_most_one_entry_per_key:
  "(distinct (map Type (elems (Conditions st))) \<longrightarrow>
      (\<exists>changed st' c'.
         UpdatePodCondition now (Some st) (Some (Own c)) = Inr (changed, st', c') \<and>
         distinct (map Type (elems (Conditions st'))))) \<and>
   (distinct (map Type (elems (Conditions st))) \<and> i < length (elems (Conditions st)) \<longrightarrow>
      (\<exists>changed st' c'.
         UpdatePodCondition now (Some st) (Some (Elem i)) = Inr (changed, st', c') \<and>
         distinct (map Type (elems (Conditions st'))))) \<and>
   (distinct (map Type (elems (Conditions st))) \<longrightarrow>
      (\<exists>added st' c'.
         AddPodCondition now (Some st) (Some c) = Inr (added, Some st', c') \<and>
         distinct (map Type (elems (Conditions st'))))) \<and>
   (distinct (map ConditionType (elems (ReadinessGates sp))) \<longrightarrow>
      (\<exists>added sp'.
         AddPodReadinessGate (Some sp) t = Inr (added, sp') \<and>
         distinct (map ConditionType (elems (ReadinessGates sp')))))"
proof (intro conjI impI)
  assume d: "distinct (map Type (elems (Conditions st)))"
  show "\<exists>changed st' c'.
         UpdatePodCondition now (Some st) (Some (Own c)) = Inr (changed, st', c') \<and>
         distinct (map Type (elems (Conditions st')))"
  proof (cases "Type c \<in> Type ` set (elems (Conditions st))")
    case True
    from UpdatePodCondition_own_types [OF True, of now] d show ?thesis
      by force
  next
    case False
    with d show ?thesis
      by (auto simp add: UpdatePodCondition_append elems_simps)
  qed
next
  assume "distinct (map Type (elems (Conditions st))) \<and> i < length (elems (Conditions st))"
  with UpdatePodCondition_elem_types [of i st now]
  show "\<exists>changed st' c'.
         UpdatePodCondition now (Some st) (Some (Elem i)) = Inr (changed, st', c') \<and>
         distinct (map Type (elems (Conditions st')))"
    by force
next
  assume d: "distinct (map Type (elems (Conditions st)))"
  show "\<exists>added st' c'.
         AddPodCondition now (Some st) (Some c) = Inr (added, Some st', c') \<and>
         distinct (map Type (elems (Conditions st')))"
  proof (cases "Type c \<in> Type ` set (elems (Conditions st))")
    case True
    with d show ?thesis by (auto simp add: AddPodCondition_present)
  next
    case False
    with d show ?thesis by (auto simp add: AddPodCondition_absent elems_simps)
  qed
next
  assume d: "distinct (map ConditionType (elems (ReadinessGates sp)))"
  show "\<exists>added sp'.
         AddPodReadinessGate (Some sp) t = Inr (added, sp') \<and>
         distinct (map ConditionType (elems (ReadinessGates sp')))"
  proof (cases "t \<in> ConditionType ` set (elems (ReadinessGates sp))")
    case True
    with d show ?thesis
      by (auto simp add: AddPodReadinessGate_def AddPodReadinessGate_loop_iff)
  next
    case False
    with d show ?thesis
      by (auto simp add: AddPodReadinessGate_def AddPodReadinessGate_loop_iff append_slice_def
          elems_simps)
  qed
qed

text \<open>
  The example status and spec have one entry per key, and keep it through an update of
  \<open>Ready\<close> by a record of its own and by the pointer to the stored entry, an addition
  of \<open>Initialized\<close> and an addition of the gate \<open>Warm\<close>.
\<close>

theorem at_most_one_entry_per_key_witness:
  "distinct (map Type (elems (Conditions exampleStatus))) \<and>
   (\<exists>changed st' c'.
      UpdatePodCondition (Time 200) (Some exampleStatus) (Some (Own exampleReadyTrue)) =
        Inr (changed, st', c') \<and>
      distinct (map Type (elems (Conditions st')))) \<and>
   (\<exists>changed st' c'.
      UpdatePodCondition (Time 200) (Some exampleStatus) (Some (Elem 1)) =
        Inr (changed, st', c') \<and>
      distinct (map Type (elems (Conditions st')))) \<and>
   (\<exists>added st' c'.
      AddPodCondition (Time 200) (Some exampleStatus) (Some exampleInitialized) =
        Inr (added, Some st', c') \<and>
      distinct (map Type (elems (Conditions st')))) \<and>
   distinct (map ConditionType (elems (ReadinessGates exampleSpec))) \<and>
   (\<exists>added sp'.
      AddPodReadinessGate (Some exampleSpec) ''Warm'' = Inr (added, sp') \<and>
      distinct (map ConditionType (elems (ReadinessGates sp'))))"
proof -
  have conds: "distinct (map Type (elems (Conditions exampleStatus)))"
    by (simp add: elems_simps example_defs)
  have gates: "distinct (map ConditionType (elems (ReadinessGates exampleSpec)))"
    by (simp add: elems_simps exampleSpec_def)
  have valid: "1 < length (elems (Conditions exampleStatus))"
    by (simp add: elems_simps example_defs)
  note inst = at_most_one_entry_per_key
    [where st = exampleStatus and now = "Time 200" and i = 1 and sp = exampleSpec
       and t = "''Warm''"]
  from inst [where c = exampleReadyTrue] conds
  have "\<exists>changed st' c'.
      UpdatePodCondition (Time 200) (Some exampleStatus) (Some (Own exampleReadyTrue)) =
        Inr (changed, st', c') \<and>
      distinct (map Type (elems (Conditions st')))"
    by blast
  moreover
  from inst [where c = exampleReadyTrue] conds valid
  have "\<exists>changed st' c'.
      UpdatePodCondition (Time 200) (Some exampleStatus) (Some (Elem 1)) =
        Inr (changed, st', c') \<and>
      distinct (map Type (elems (Conditions st')))"
    by blast
  moreover
  from inst [where c = exampleInitialized] conds
  have "\<exists>added st' c'.
      AddPodCondition (Time 200) (Some exampleStatus) (Some exampleInitialized) =
        Inr (added, Some st', c') \<and>
      distinct (map Type (elems (Conditions st')))"
    by blast
  moreover
  from inst [where c = exampleInitialized] gates
  have "\<exists>added sp'.
      AddPodReadinessGate (Some exampleSpec) ''Warm'' = Inr (added, sp') \<and>
      distinct (map ConditionType (elems (ReadinessGates sp')))"
    by blast
  ultimately show ?thesis
    using conds gates by blast
qed

subsection \<open>The condition record of the caller\<close>

text \<open>
  Claim C10. The record \<open>condition\<close> points to is written to. \<open>UpdatePodCondition\<close>
  writes \<open>now\<close> to its transition time before the lookup and, when the entry found has
  the same \<open>Status\<close>, writes the transition time of that entry to it afterwards.

  On a record of its own, the record has transition time \<open>now\<close> after the call when no
  condition of its type was there and when the one found has another \<open>Status\<close>, and the
  transition time of the entry found when that has the same \<open>Status\<close>; it equals the
  entry the call stored. A call that returns false because all compared fields agree
  leaves the status as it was and the record of the caller equal to the old entry,
  whatever transition time the caller had put in.

  On the pointer to the very entry the lookup finds, the write of \<open>now\<close> has reached that
  entry before the lookup, so the transition time written back is \<open>now\<close> again: the call
  returns false and the record, which is the stored entry, has transition time \<open>now\<close>.
  On the pointer to a later entry of a type that occurs before, the entry found is
  another one, and after the call the record and the entry found are the same record.

  After \<open>AddPodCondition\<close> the record is untouched when the call returns false, and has
  transition time \<open>now\<close> when the call appends it and returns true.
\<close>

theorem condition_argument_written:
  "(Type c \<notin> Type ` set (elems (Conditions st)) \<longrightarrow>
      (\<exists>st'. UpdatePodCondition now (Some st) (Some (Own c)) =
                Inr (True, st', c\<lparr>LastTransitionTime := now\<rparr>) \<and>
             last (elems (Conditions st')) = c\<lparr>LastTransitionTime := now\<rparr>)) \<and>
   (GetPodCondition (Some st) (Type c) = (idx, Some old) \<and> Status c \<noteq> Status old \<longrightarrow>
      (\<exists>st'. UpdatePodCondition now (Some st) (Some (Own c)) =
                Inr (True, st', c\<lparr>LastTransitionTime := now\<rparr>) \<and>
             elems (Conditions st') ! nat idx = c\<lparr>LastTransitionTime := now\<rparr>)) \<and>
   (GetPodCondition (Some st) (Type c) = (idx, Some old) \<and> Status c = Status old \<longrightarrow>
      (\<exists>changed st'. UpdatePodCondition now (Some st) (Some (Own c)) =
                Inr (changed, st', c\<lparr>LastTransitionTime := LastTransitionTime old\<rparr>) \<and>
             elems (Conditions st') ! nat idx =
               c\<lparr>LastTransitionTime := LastTransitionTime old\<rparr>)) \<and>
   (GetPodCondition (Some st) (Type c) = (idx, Some old) \<and> Status c = Status old \<and>
    Reason c = Reason old \<and> Message c = Message old \<and> LastProbeTime c = LastProbeTime old \<longrightarrow>
      UpdatePodCondition now (Some st) (Some (Own c)) =
        Inr (False, st, c\<lparr>LastTransitionTime := LastTransitionTime old\<rparr>) \<and>
      c\<lparr>LastTransitionTime := LastTransitionTime old\<rparr> = old) \<and>
   (i < length (elems (Conditions st)) \<and>
    GetPodCondition (Some st) (Type (elems (Conditions st) ! i)) = (int i, Some old) \<longrightarrow>
      UpdatePodCondition now (Some st) (Some (Elem i)) =
        Inr (False,
             st\<lparr>Conditions :=
                  Some ((elems (Conditions st))
                    [i := (elems (Conditions st) ! i)\<lparr>LastTransitionTime := now\<rparr>])\<rparr>,
             (elems (Conditions st) ! i)\<lparr>LastTransitionTime := now\<rparr>)) \<and>
   (i < length (elems (Conditions st)) \<and>
    GetPodCondition (Some st) (Type (elems (Conditions st) ! i)) = (idx, Some old) \<and>
    idx \<noteq> int i \<longrightarrow>
      (\<exists>changed st' c'.
         UpdatePodCondition now (Some st) (Some (Elem i)) = Inr (changed, st', c') \<and>
         c' = (elems (Conditions st) ! i)\<lparr>LastTransitionTime :=
                if Status (elems (Conditions st) ! i) = Status old
                then LastTransitionTime old else now\<rparr> \<and>
         elems (Conditions st') ! i = c' \<and>
         elems (Conditions st') ! nat idx = c')) \<and>
   (Type c \<in> Type ` set (elems (Conditions st)) \<longrightarrow>
      AddPodCondition now (Some st) (Some c) = Inr (False, Some st, c)) \<and>
   (Type c \<notin> Type ` set (elems (Conditions st)) \<longrightarrow>
      (\<exists>st'. AddPodCondition now (Some st) (Some c) =
                Inr (True, Some st', c\<lparr>LastTransitionTime := now\<rparr>) \<and>
             last (elems (Conditions st')) = c\<lparr>LastTransitionTime := now\<rparr>))"
proof (intro conjI impI)
  assume "Type c \<notin> Type ` set (elems (Conditions st))"
  then show "\<exists>st'. UpdatePodCondition now (Some st) (Some (Own c)) =
                Inr (True, st', c\<lparr>LastTransitionTime := now\<rparr>) \<and>
             last (elems (Conditions st')) = c\<lparr>LastTransitionTime := now\<rparr>"
    by (simp add: UpdatePodCondition_append elems_simps)
next
  assume a: "GetPodCondition (Some st) (Type c) = (idx, Some old) \<and> Status c \<noteq> Status old"
  from GetPodCondition_found [of st "Type c" idx old] a
  have "nat idx < length (elems (Conditions st))" by simp
  with a show "\<exists>st'. UpdatePodCondition now (Some st) (Some (Own c)) =
                Inr (True, st', c\<lparr>LastTransitionTime := now\<rparr>) \<and>
             elems (Conditions st') ! nat idx = c\<lparr>LastTransitionTime := now\<rparr>"
    by (simp add: UpdatePodCondition_replace elems_simps)
next
  assume a: "GetPodCondition (Some st) (Type c) = (idx, Some old) \<and> Status c = Status old"
  from GetPodCondition_found [of st "Type c" idx old] a
  have "nat idx < length (elems (Conditions st))" by simp
  with a show "\<exists>changed st'. UpdatePodCondition now (Some st) (Some (Own c)) =
                Inr (changed, st', c\<lparr>LastTransitionTime := LastTransitionTime old\<rparr>) \<and>
             elems (Conditions st') ! nat idx =
               c\<lparr>LastTransitionTime := LastTransitionTime old\<rparr>"
    by (simp add: UpdatePodCondition_replace elems_simps)
next
  assume a: "GetPodCondition (Some st) (Type c) = (idx, Some old) \<and> Status c = Status old \<and>
    Reason c = Reason old \<and> Message c = Message old \<and> LastProbeTime c = LastProbeTime old"
  from GetPodCondition_found [of st "Type c" idx old] a
  have f: "nat idx < length (elems (Conditions st))" "elems (Conditions st) ! nat idx = old"
    "Type old = Type c" "Conditions st = Some (elems (Conditions st))"
    by simp_all
  from a f(3) have e: "c\<lparr>LastTransitionTime := LastTransitionTime old\<rparr> = old"
    by simp
  have "(elems (Conditions st))[nat idx := old] = elems (Conditions st)"
    using f(2) by (metis list_update_id)
  with f(4) have "st\<lparr>Conditions := Some ((elems (Conditions st))[nat idx := old])\<rparr> = st"
    by simp
  with a e show "UpdatePodCondition now (Some st) (Some (Own c)) =
        Inr (False, st, c\<lparr>LastTransitionTime := LastTransitionTime old\<rparr>)"
    by (simp add: UpdatePodCondition_replace)
  from e show "c\<lparr>LastTransitionTime := LastTransitionTime old\<rparr> = old" .
next
  assume "i < length (elems (Conditions st)) \<and>
    GetPodCondition (Some st) (Type (elems (Conditions st) ! i)) = (int i, Some old)"
  then show "UpdatePodCondition now (Some st) (Some (Elem i)) =
        Inr (False,
             st\<lparr>Conditions :=
                  Some ((elems (Conditions st))
                    [i := (elems (Conditions st) ! i)\<lparr>LastTransitionTime := now\<rparr>])\<rparr>,
             (elems (Conditions st) ! i)\<lparr>LastTransitionTime := now\<rparr>)"
    by (intro UpdatePodCondition_elem_found) simp_all
next
  let ?c = "(elems (Conditions st) ! i)\<lparr>LastTransitionTime :=
              if Status (elems (Conditions st) ! i) = Status old
              then LastTransitionTime old else now\<rparr>"
  assume a: "i < length (elems (Conditions st)) \<and>
    GetPodCondition (Some st) (Type (elems (Conditions st) ! i)) = (idx, Some old) \<and>
    idx \<noteq> int i"
  then have i: "i < length (elems (Conditions st))"
    and l: "GetPodCondition (Some st) (Type (elems (Conditions st) ! i)) = (idx, Some old)"
    and d: "idx \<noteq> int i"
    by simp_all
  from GetPodCondition_found [OF l] d
  have f: "nat idx < length (elems (Conditions st))" "nat idx \<noteq> i"
    by auto
  from i f have "(elems (Conditions st))[i := ?c, nat idx := ?c] ! i = ?c"
    and "(elems (Conditions st))[i := ?c, nat idx := ?c] ! nat idx = ?c"
    by simp_all
  then show "\<exists>changed st' c'.
         UpdatePodCondition now (Some st) (Some (Elem i)) = Inr (changed, st', c') \<and>
         c' = ?c \<and> elems (Conditions st') ! i = c' \<and> elems (Conditions st') ! nat idx = c'"
    by (auto simp add: UpdatePodCondition_elem_later [OF i l d] elems_simps)
next
  assume "Type c \<in> Type ` set (elems (Conditions st))"
  then show "AddPodCondition now (Some st) (Some c) = Inr (False, Some st, c)"
    by (rule AddPodCondition_present)
next
  assume "Type c \<notin> Type ` set (elems (Conditions st))"
  then show "\<exists>st'. AddPodCondition now (Some st) (Some c) =
                Inr (True, Some st', c\<lparr>LastTransitionTime := now\<rparr>) \<and>
             last (elems (Conditions st')) = c\<lparr>LastTransitionTime := now\<rparr>"
    by (simp add: AddPodCondition_absent elems_simps)
qed

text \<open>
  On the example status, at time 200. A record \<open>Ready\<close> equal to the stored one in all
  compared fields, handed in with transition time 0: the call returns false, the status
  is as before, and the record of the caller now carries transition time 100. A record
  \<open>Ready\<close> with status true comes back with transition time 200. The pointer to the
  stored \<open>Ready\<close> entry: the call returns false, and the entry has transition time 200.
  In a status with two \<open>Ready\<close> entries, the pointer to the second: both entries end as
  the second with transition time 200. \<open>AddPodCondition\<close> leaves a record \<open>Ready\<close>
  untouched and returns \<open>Initialized\<close> with transition time 200.
\<close>

theorem condition_argument_written_witness:
  "UpdatePodCondition (Time 200) (Some exampleStatus) (Some (Own exampleReadySame)) =
     Inr (False, exampleStatus, exampleReadyFalse) \<and>
   exampleReadySame \<noteq> exampleReadyFalse \<and>
   (\<exists>st'. UpdatePodCondition (Time 200) (Some exampleStatus) (Some (Own exampleReadyTrue)) =
             Inr (True, st', exampleReadyTrue\<lparr>LastTransitionTime := Time 200\<rparr>) \<and>
          elems (Conditions st') ! 1 = exampleReadyTrue\<lparr>LastTransitionTime := Time 200\<rparr>) \<and>
   (\<exists>st'. UpdatePodCondition (Time 200) (Some exampleStatus) (Some (Elem 1)) =
             Inr (False, st', exampleReadyFalse\<lparr>LastTransitionTime := Time 200\<rparr>) \<and>
          elems (Conditions st') ! 1 = exampleReadyFalse\<lparr>LastTransitionTime := Time 200\<rparr>) \<and>
   (\<exists>changed st'.
      UpdatePodCondition (Time 200)
        (Some (exampleStatus\<lparr>Conditions := Some [exampleReadyFalse, exampleReadyTrue]\<rparr>))
        (Some (Elem 1)) =
        Inr (changed, st', exampleReadyTrue\<lparr>LastTransitionTime := Time 200\<rparr>) \<and>
      elems (Conditions st') ! 1 = exampleReadyTrue\<lparr>LastTransitionTime := Time 200\<rparr> \<and>
      elems (Conditions st') ! 0 = exampleReadyTrue\<lparr>LastTransitionTime := Time 200\<rparr>) \<and>
   AddPodCondition (Time 200) (Some exampleStatus) (Some exampleReadyTrue) =
     Inr (False, Some exampleStatus, exampleReadyTrue) \<and>
   (\<exists>st'. AddPodCondition (Time 200) (Some exampleStatus) (Some exampleInitialized) =
             Inr (True, Some st', exampleInitialized\<lparr>LastTransitionTime := Time 200\<rparr>) \<and>
          last (elems (Conditions st')) = exampleInitialized\<lparr>LastTransitionTime := Time 200\<rparr>)"
proof -
  let ?dup = "exampleStatus\<lparr>Conditions := Some [exampleReadyFalse, exampleReadyTrue]\<rparr>"
  have same: "GetPodCondition (Some exampleStatus) (Type exampleReadySame) =
                (1, Some exampleReadyFalse) \<and>
              Status exampleReadySame = Status exampleReadyFalse \<and>
              Reason exampleReadySame = Reason exampleReadyFalse \<and>
              Message exampleReadySame = Message exampleReadyFalse \<and>
              LastProbeTime exampleReadySame = LastProbeTime exampleReadyFalse"
    by (simp add: GetPodCondition_def GetPodConditionFromList_def example_defs)
  have differs: "GetPodCondition (Some exampleStatus) (Type exampleReadyTrue) =
                   (1, Some exampleReadyFalse) \<and>
                 Status exampleReadyTrue \<noteq> Status exampleReadyFalse"
    by (simp add: GetPodCondition_def GetPodConditionFromList_def example_defs)
  have itself: "1 < length (elems (Conditions exampleStatus)) \<and>
                GetPodCondition (Some exampleStatus)
                  (Type (elems (Conditions exampleStatus) ! 1)) = (int 1, Some exampleReadyFalse)"
    by (simp add: GetPodCondition_def GetPodConditionFromList_def elems_simps example_defs)
  have later: "1 < length (elems (Conditions ?dup)) \<and>
               GetPodCondition (Some ?dup) (Type (elems (Conditions ?dup) ! 1)) =
                 (0, Some exampleReadyFalse) \<and>
               0 \<noteq> int 1"
    by (simp add: GetPodCondition_def GetPodConditionFromList_def elems_simps example_defs)
  have present: "Type exampleReadyTrue \<in> Type ` set (elems (Conditions exampleStatus))"
    by (simp add: elems_simps example_defs)
  have absent: "Type exampleInitialized \<notin> Type ` set (elems (Conditions exampleStatus))"
    by (simp add: elems_simps example_defs)
  have vals: "elems (Conditions exampleStatus) = [exampleScheduled, exampleReadyFalse]"
    "elems (Conditions ?dup) = [exampleReadyFalse, exampleReadyTrue]"
    "Status exampleReadyTrue \<noteq> Status exampleReadyFalse"
    by (simp_all add: elems_simps example_defs)
  from condition_argument_written
         [where c = exampleReadySame and st = exampleStatus and now = "Time 200" and idx = 1
            and old = exampleReadyFalse] same
  have "UpdatePodCondition (Time 200) (Some exampleStatus) (Some (Own exampleReadySame)) =
          Inr (False, exampleStatus, exampleReadyFalse)"
    by simp
  moreover have "exampleReadySame \<noteq> exampleReadyFalse"
    by (simp add: example_defs)
  moreover
  from condition_argument_written
         [where c = exampleReadyTrue and st = exampleStatus and now = "Time 200" and idx = 1
            and old = exampleReadyFalse] differs
  have "\<exists>st'. UpdatePodCondition (Time 200) (Some exampleStatus) (Some (Own exampleReadyTrue)) =
             Inr (True, st', exampleReadyTrue\<lparr>LastTransitionTime := Time 200\<rparr>) \<and>
          elems (Conditions st') ! 1 = exampleReadyTrue\<lparr>LastTransitionTime := Time 200\<rparr>"
    by simp
  moreover
  from condition_argument_written
         [where st = exampleStatus and now = "Time 200" and i = 1
            and old = exampleReadyFalse] itself
  have "\<exists>st'. UpdatePodCondition (Time 200) (Some exampleStatus) (Some (Elem 1)) =
             Inr (False, st', exampleReadyFalse\<lparr>LastTransitionTime := Time 200\<rparr>) \<and>
          elems (Conditions st') ! 1 = exampleReadyFalse\<lparr>LastTransitionTime := Time 200\<rparr>"
    by (simp add: vals elems_simps)
  moreover
  from condition_argument_written
         [where st = ?dup and now = "Time 200" and i = 1 and idx = 0
            and old = exampleReadyFalse] later
  obtain changed st' c' where r:
    "UpdatePodCondition (Time 200) (Some ?dup) (Some (Elem 1)) = Inr (changed, st', c')"
    "c' = (elems (Conditions ?dup) ! 1)\<lparr>LastTransitionTime :=
             if Status (elems (Conditions ?dup) ! 1) = Status exampleReadyFalse
             then LastTransitionTime exampleReadyFalse else Time 200\<rparr>"
    "elems (Conditions st') ! 1 = c'" "elems (Conditions st') ! nat 0 = c'"
    by blast
  from r(2) have "c' = exampleReadyTrue\<lparr>LastTransitionTime := Time 200\<rparr>"
    by (simp add: vals elems_simps)
  with r(1,3,4) have "\<exists>changed st'.
      UpdatePodCondition (Time 200) (Some ?dup) (Some (Elem 1)) =
        Inr (changed, st', exampleReadyTrue\<lparr>LastTransitionTime := Time 200\<rparr>) \<and>
      elems (Conditions st') ! 1 = exampleReadyTrue\<lparr>LastTransitionTime := Time 200\<rparr> \<and>
      elems (Conditions st') ! 0 = exampleReadyTrue\<lparr>LastTransitionTime := Time 200\<rparr>"
    by auto
  moreover
  from condition_argument_written
         [where c = exampleReadyTrue and st = exampleStatus and now = "Time 200"] present
  have "AddPodCondition (Time 200) (Some exampleStatus) (Some exampleReadyTrue) =
          Inr (False, Some exampleStatus, exampleReadyTrue)"
    by blast
  moreover
  from condition_argument_written
         [where c = exampleInitialized and st = exampleStatus and now = "Time 200"] absent
  have "\<exists>st'. AddPodCondition (Time 200) (Some exampleStatus) (Some exampleInitialized) =
             Inr (True, Some st', exampleInitialized\<lparr>LastTransitionTime := Time 200\<rparr>) \<and>
          last (elems (Conditions st')) = exampleInitialized\<lparr>LastTransitionTime := Time 200\<rparr>"
    by blast
  ultimately show ?thesis by blast
qed

subsection \<open>Faults\<close>

lemma UpdatePodCondition_returns:
  "\<exists>r. UpdatePodCondition now (Some st) (Some (Own c)) = Inr r"
proof (cases "Type c \<in> Type ` set (elems (Conditions st))")
  case False
  then show ?thesis by (auto simp add: UpdatePodCondition_append)
next
  case True
  then obtain idx old where "GetPodCondition (Some st) (Type c) = (idx, Some old)"
    by (rule GetPodCondition_present)
  then show ?thesis by (auto simp add: UpdatePodCondition_replace)
qed

lemma UpdatePodCondition_elem_returns:
  assumes "i < length (elems (Conditions st))"
  shows "\<exists>r. UpdatePodCondition now (Some st) (Some (Elem i)) = Inr r"
  using UpdatePodCondition_elem_types [OF assms, of now] by auto

lemma AddPodCondition_returns:
  "\<exists>r. AddPodCondition now (Some st) (Some c) = Inr r"
  by (cases "Type c \<in> Type ` set (elems (Conditions st))")
    (auto simp add: AddPodCondition_present AddPodCondition_absent)

text \<open>
  Claim C3, as amended. The claim that no input makes an operation fault does not hold:
  the functions that take a pod, a status, a spec or a condition by pointer dereference
  it without a nil check. What holds is this. Every operation returns when the pointers
  it is given are not nil: \<open>IsPodRunning\<close>, \<open>IsPodActive\<close> and \<open>IsPodReady\<close> on a pod,
  \<open>GetPodNames\<close> on a slice of pointers to pods (and on the nil slice),
  \<open>UpdatePodCondition\<close> and \<open>AddPodCondition\<close> on a status and a condition (for
  \<open>UpdatePodCondition\<close> a record of its own or an entry of the status),
  \<open>AddPodReadinessGate\<close> on a spec; nil condition and gate slices inside them are
  accepted. The lookups return \<open>(-1, nil)\<close> on a nil status and on a nil slice, and a
  status whose slice is nil has no ready condition. On a nil pod \<open>IsPodRunning\<close>,
  \<open>IsPodActive\<close> and \<open>IsPodReady\<close> panic; on a nil status or a nil condition
  \<open>UpdatePodCondition\<close> and \<open>AddPodCondition\<close> panic; on a nil spec
  \<open>AddPodReadinessGate\<close> panics.
\<close>

theorem no_fault_on_present_references:
  "(\<exists>b. IsPodRunning (Some p) = Inr b) \<and>
   (\<exists>b. IsPodActive (Some p) = Inr b) \<and>
   (\<exists>b. IsPodReady (Some p) = Inr b) \<and>
   (\<exists>names. GetPodNames (Some (map Some ps)) = Inr names) \<and>
   GetPodNames None = Inr (Some []) \<and>
   GetPodCondition None t = (- 1, None) \<and>
   GetPodConditionFromList None t = (- 1, None) \<and>
   GetPodReadyCondition \<lparr>Phase = ph, Conditions = None\<rparr> = None \<and>
   IsPodReadyConditionTrue \<lparr>Phase = ph, Conditions = None\<rparr> = False \<and>
   (\<exists>r. UpdatePodCondition now (Some st) (Some (Own c)) = Inr r) \<and>
   (i < length (elems (Conditions st)) \<longrightarrow>
      (\<exists>r. UpdatePodCondition now (Some st) (Some (Elem i)) = Inr r)) \<and>
   (\<exists>r. AddPodCondition now (Some st) (Some c) = Inr r) \<and>
   (\<exists>r. AddPodReadinessGate (Some sp) t = Inr r) \<and>
   IsPodRunning None = Inl NilPointerDereference \<and>
   IsPodActive None = Inl NilPointerDereference \<and>
   IsPodReady None = Inl NilPointerDereference \<and>
   UpdatePodCondition now None (Some (Own c)) = Inl NilPointerDereference \<and>
   AddPodCondition now None (Some c) = Inl NilPointerDereference \<and>
   UpdatePodCondition now status None = Inl NilPointerDereference \<and>
   AddPodCondition now status None = Inl NilPointerDereference \<and>
   AddPodReadinessGate None t = Inl NilPointerDereference"
proof (intro conjI impI)
  show "\<exists>names. GetPodNames (Some (map Some ps)) = Inr names"
    by (simp add: GetPodNames_def elems_def GetPodNames_loop_present)
  show "\<exists>r. UpdatePodCondition now (Some st) (Some (Own c)) = Inr r"
    by (rule UpdatePodCondition_returns)
  show "\<exists>r. UpdatePodCondition now (Some st) (Some (Elem i)) = Inr r"
    if "i < length (elems (Conditions st))"
    using that by (rule UpdatePodCondition_elem_returns)
  show "\<exists>r. AddPodCondition now (Some st) (Some c) = Inr r"
    by (rule AddPodCondition_returns)
  show "\<exists>r. AddPodReadinessGate (Some sp) t = Inr r"
    by (auto simp add: AddPodReadinessGate_def)
  show "UpdatePodCondition now None (Some (Own c)) = Inl NilPointerDereference"
    by (simp add: UpdatePodCondition_def deref_Own assign_Own GetPodCondition_def)
qed (simp_all add: IsPodRunning_def IsPodActive_def IsPodReady_def GetPodNames_def elems_def
    GetPodCondition_def GetPodConditionFromList_def GetPodReadyCondition_def
    IsPodReadyConditionTrue_def UpdatePodCondition_def AddPodCondition_def
    AddPodReadinessGate_def)

theorem no_fault_on_present_references_witness:
  "IsPodRunning (Some examplePod) = Inr True \<and>
   IsPodReady (Some examplePod) = Inr False \<and>
   IsPodRunning (Some exampleDeletedPod) = Inr False \<and>
   (\<exists>r. UpdatePodCondition (Time 200) (Some \<lparr>Phase = ''Pending'', Conditions = None\<rparr>)
           (Some (Own exampleReadyTrue)) = Inr r) \<and>
   (\<exists>r. UpdatePodCondition (Time 200) (Some exampleStatus) (Some (Elem 1)) = Inr r) \<and>
   (\<exists>r. AddPodCondition (Time 200) (Some \<lparr>Phase = ''Pending'', Conditions = None\<rparr>)
           (Some exampleReadyTrue) = Inr r)"
proof -
  have "IsPodRunning (Some examplePod) = Inr True"
    "IsPodReady (Some examplePod) = Inr False"
    "IsPodRunning (Some exampleDeletedPod) = Inr False"
    by (simp_all add: IsPodRunning_def IsPodReady_def IsPodReadyConditionTrue_def
        GetPodReadyCondition_def GetPodCondition_def GetPodConditionFromList_def IsZero_def
        PodRunning_def PodReady_def ConditionTrue_def example_defs)
  moreover have "1 < length (elems (Conditions exampleStatus))"
    by (simp add: elems_simps exampleStatus_def)
  moreover note
    no_fault_on_present_references
      [where p = examplePod and ps = "[]" and t = "''Ready''" and ph = "''Pending''"
         and now = "Time 200" and st = "\<lparr>Phase = ''Pending'', Conditions = None\<rparr>"
         and c = exampleReadyTrue and sp = exampleSpec and status = None and i = 0]
    no_fault_on_present_references
      [where p = examplePod and ps = "[]" and t = "''Ready''" and ph = "''Pending''"
         and now = "Time 200" and st = exampleStatus
         and c = exampleReadyTrue and sp = exampleSpec and status = None and i = 1]
  ultimately show ?thesis by simp
qed

text \<open>
  Claim C3, as stated, fails: the operations named in the claim panic on a nil pod and
  on a nil status.
\<close>

theorem fault_on_absent_references:
  "IsPodRunning None = Inl NilPointerDereference \<and>
   IsPodActive None = Inl NilPointerDereference \<and>
   IsPodReady None = Inl NilPointerDereference \<and>
   UpdatePodCondition (Time 200) None (Some (Own exampleReadyTrue)) =
     Inl NilPointerDereference \<and>
   AddPodCondition (Time 200) None (Some exampleReadyTrue) = Inl NilPointerDereference"
  by (simp add: IsPodRunning_def IsPodActive_def IsPodReady_def UpdatePodCondition_def
      deref_Own assign_Own AddPodCondition_def GetPodCondition_def)

end
